theory Spec2Isabelle
  imports Main "HOL-Library.List_Lexorder" "HOL-Library.Sublist" "HOL-Library.AList"
begin

section \<open>Strings and the path functions of the standard library\<close>

text \<open>
  A Python \<open>str\<close> is the list of its code points, so that indexing, \<open>startswith\<close> and
  the order that \<open>sorted\<close> uses (lexicographic on code points) are those of the language.
  \<open>bytes\<close> are lists of byte values, of the same type. \<^term>\<open>lit s\<close> is the \<open>str\<close> of an
  ASCII literal.

  \<open>str.lower()\<close> follows the case tables of Unicode, which are not part of the program.
  It is a parameter: the field \<open>str_lower\<close> of the machine below, handed to \<open>join\<close> as
  \<open>lc\<close>, and what is proved holds for every such function. \<open>ascii_lower\<close>, which agrees
  with \<open>str.lower()\<close> on ASCII strings, stands for it on the example machines.

  The functions of \<open>os.path\<close> are those of \<open>ntpath.py\<close> and \<open>genericpath.py\<close> of
  CPython 3.11: \<open>sep\<close> is the backslash, \<open>altsep\<close> the slash.
\<close>

type_synonym str = "nat list"

definition lit :: "string \<Rightarrow> str" where
  "lit s = map of_char s"

definition sep :: nat where
  "sep = 92"

definition altsep :: nat where
  "altsep = 47"

definition colon :: nat where
  "colon = 58"

definition extsep :: nat where
  "extsep = 46"

definition is_sep :: "nat \<Rightarrow> bool" where
  "is_sep c = (c = sep \<or> c = altsep)"

text \<open>\<open>p.replace(altsep, sep)\<close>.\<close>

definition replace_altsep :: "str \<Rightarrow> str" where
  "replace_altsep p = map (\<lambda>c. if c = altsep then sep else c) p"

text \<open>A Windows path written with slashes, for the examples.\<close>

definition win :: "string \<Rightarrow> str" where
  "win s = replace_altsep (lit s)"

definition ascii_lower :: "str \<Rightarrow> str" where
  "ascii_lower s = map (\<lambda>c. if 65 \<le> c \<and> c \<le> 90 then c + 32 else c) s"

text \<open>
  \<open>splitdrive\<close> compares \<open>normp[:8].upper()\<close> with the literal \<open>\\?\UNC\\<close>. No character
  other than \<open>u\<close>, \<open>n\<close>, \<open>c\<close> and the characters of the literal has an upper case among
  them, so folding the ASCII letters decides this comparison as \<open>str.upper()\<close> does.
\<close>

definition ascii_upper :: "str \<Rightarrow> str" where
  "ascii_upper s = map (\<lambda>c. if 97 \<le> c \<and> c \<le> 122 then c - 32 else c) s"

text \<open>\<open>s.startswith(pre)\<close> is \<^term>\<open>prefix pre s\<close>.\<close>

text \<open>\<open>p.rfind(c)\<close>: the index of the last occurrence of \<open>c\<close>, or \<open>-1\<close>.\<close>

fun rfind_from :: "nat \<Rightarrow> str \<Rightarrow> int \<Rightarrow> int \<Rightarrow> int" where
  "rfind_from c [] i found = found"
| "rfind_from c (x # xs) i found = rfind_from c xs (i + 1) (if x = c then i else found)"

definition rfind :: "str \<Rightarrow> nat \<Rightarrow> int" where
  "rfind p c = rfind_from c p 0 (- 1)"

text \<open>\<open>p.find(c, start)\<close>: the index of the first occurrence of \<open>c\<close> at or after \<open>start\<close>.\<close>

fun find_from :: "nat \<Rightarrow> str \<Rightarrow> nat \<Rightarrow> nat option" where
  "find_from c [] i = None"
| "find_from c (x # xs) i = (if x = c then Some i else find_from c xs (Suc i))"

definition find_chr :: "str \<Rightarrow> nat \<Rightarrow> nat \<Rightarrow> nat option" where
  "find_chr p c start = find_from c (drop start p) start"

text \<open>
  \<open>genericpath._splitext(p, '\\', '/', '.')\<close>: the extension starts at the last dot of the
  last component, unless that component has only dots before it.
\<close>

definition splitext :: "str \<Rightarrow> str \<times> str" where
  "splitext p =
    (let sepIndex = max (rfind p sep) (rfind p altsep);
         dotIndex = rfind p extsep
     in if dotIndex > sepIndex \<and>
           list_ex (\<lambda>c. c \<noteq> extsep)
             (take (nat (dotIndex - (sepIndex + 1))) (drop (nat (sepIndex + 1)) p))
        then (take (nat dotIndex) p, drop (nat dotIndex) p)
        else (p, []))"

definition unc_prefix :: str where
  "unc_prefix = [sep, sep, 63, sep, 85, 78, 67, sep]"

definition splitdrive :: "str \<Rightarrow> str \<times> str" where
  "splitdrive p =
    (if length p \<ge> 2 then
       (let normp = replace_altsep p in
        if take 2 normp = [sep, sep] then
          (let start = (if ascii_upper (take 8 normp) = unc_prefix then 8 else 2) in
           case find_chr normp sep start of
             None \<Rightarrow> (p, [])
           | Some index \<Rightarrow>
               (case find_chr normp sep (index + 1) of
                  None \<Rightarrow> (p, [])
                | Some index2 \<Rightarrow> (take index2 p, drop index2 p)))
        else if take 1 (drop 1 normp) = [colon] then (take 2 p, drop 2 p)
        else ([], p))
     else ([], p))"

text \<open>\<open>split(p)[1]\<close>: what follows the last separator of the path without its drive.\<close>

definition basename :: "str \<Rightarrow> str" where
  "basename p = rev (takeWhile (\<lambda>c. \<not> is_sep c) (rev (snd (splitdrive p))))"

definition isabs :: "str \<Rightarrow> bool" where
  "isabs s =
    (let s3 = replace_altsep (take 3 s) in prefix [sep] s3 \<or> prefix [colon, sep] (drop 1 s3))"

text \<open>\<open>os.path.join(path, p)\<close> with one component to add.\<close>

definition join_result :: "str \<Rightarrow> str \<Rightarrow> str" where
  "join_result result_drive result_path =
    (if result_path \<noteq> [] \<and> \<not> is_sep (hd result_path) \<and>
        result_drive \<noteq> [] \<and> last result_drive \<noteq> colon
     then result_drive @ [sep] @ result_path
     else result_drive @ result_path)"

definition join :: "(str \<Rightarrow> str) \<Rightarrow> str \<Rightarrow> str \<Rightarrow> str" where
  "join lc path p =
    (let (result_drive, result_path) = splitdrive path;
         (p_drive, p_path) = splitdrive p
     in if p_path \<noteq> [] \<and> is_sep (hd p_path) then
          join_result (if p_drive \<noteq> [] \<or> result_drive = [] then p_drive else result_drive) p_path
        else if p_drive \<noteq> [] \<and> p_drive \<noteq> result_drive \<and> lc p_drive \<noteq> lc result_drive then
          join_result p_drive p_path
        else
          join_result
            (if p_drive \<noteq> [] \<and> p_drive \<noteq> result_drive then p_drive else result_drive)
            ((if result_path \<noteq> [] \<and> \<not> is_sep (last result_path)
              then result_path @ [sep] else result_path) @ p_path))"


section \<open>The machine: files, the two registry keys, the interpreter\<close>

datatype exn = PermissionError | FileNotFoundError | OSError | TypeError | UnicodeEncodeError

datatype hkey = HKEY_LOCAL_MACHINE | HKEY_CURRENT_USER

datatype sam = KEY_READ | KEY_SET_VALUE

text \<open>
  What \<open>winreg.EnumValue\<close> hands back as the data of a value: a \<open>str\<close> for \<open>REG_SZ\<close>,
  \<open>bytes\<close> for \<open>REG_BINARY\<close>, an \<open>int\<close> for \<open>REG_DWORD\<close>.
\<close>

datatype regdata = REG_SZ str | REG_BINARY str | REG_DWORD nat

text \<open>
  The state the three operations read and change: the files (path to contents), the
  values of the \<open>Fonts\<close> key under each hive in enumeration order, and the number of
  \<open>WM_FONTCHANGE\<close> broadcasts made so far. The remaining fields are not changed by any
  operation. Six of them say which calls the operating system refuses, and with which
  exception. \<open>print_err\<close> is what \<open>print\<close> raises on the standard output of the process,
  if anything: the messages printed are Chinese text, which an output that encodes as
  cp1252 refuses with a \<open>UnicodeEncodeError\<close>. \<open>str_lower\<close> is \<open>str.lower()\<close>, and
  \<open>fsdecode\<close> turns a \<open>bytes\<close> path into the \<open>str\<close> that the file system is asked for.
  A path is a file name as written: two spellings of one file are two paths here, and
  the names of registry values are compared exactly.
\<close>

record world =
  files :: "str \<rightharpoonup> str"
  hklm_fonts :: "(str \<times> regdata) list"
  hkcu_fonts :: "(str \<times> regdata) list"
  font_changes :: nat
  OpenKey_err :: "hkey \<Rightarrow> sam \<Rightarrow> exn option"
  EnumValue_err :: "hkey \<Rightarrow> nat \<Rightarrow> bool"
  SetValueEx_err :: "hkey \<Rightarrow> str \<Rightarrow> exn option"
  DeleteValue_err :: "hkey \<Rightarrow> str \<Rightarrow> exn option"
  copy2_err :: "str \<Rightarrow> str \<Rightarrow> exn option"
  remove_err :: "str \<Rightarrow> exn option"
  print_err :: "exn option"
  str_lower :: "str \<Rightarrow> str"
  fsdecode :: "str \<Rightarrow> str"

fun fonts_key :: "world \<Rightarrow> hkey \<Rightarrow> (str \<times> regdata) list" where
  "fonts_key w HKEY_LOCAL_MACHINE = hklm_fonts w"
| "fonts_key w HKEY_CURRENT_USER = hkcu_fonts w"

fun set_fonts_key :: "hkey \<Rightarrow> (str \<times> regdata) list \<Rightarrow> world \<Rightarrow> world" where
  "set_fonts_key HKEY_LOCAL_MACHINE vs w = w\<lparr>hklm_fonts := vs\<rparr>"
| "set_fonts_key HKEY_CURRENT_USER vs w = w\<lparr>hkcu_fonts := vs\<rparr>"

definition OpenKey :: "world \<Rightarrow> hkey \<Rightarrow> sam \<Rightarrow> exn + unit" where
  "OpenKey w hk access = (case OpenKey_err w hk access of Some e \<Rightarrow> Inl e | None \<Rightarrow> Inr ())"

text \<open>\<open>EnumValue\<close> raises an \<open>OSError\<close> past the last value, or where the system refuses.\<close>

definition EnumValue :: "world \<Rightarrow> hkey \<Rightarrow> nat \<Rightarrow> exn + (str \<times> regdata)" where
  "EnumValue w hk i =
    (if i < length (fonts_key w hk) \<and> \<not> EnumValue_err w hk i
     then Inr (fonts_key w hk ! i) else Inl OSError)"

definition SetValueEx :: "world \<Rightarrow> hkey \<Rightarrow> str \<Rightarrow> str \<Rightarrow> (exn + unit) \<times> world" where
  "SetValueEx w hk value_name data =
    (case SetValueEx_err w hk value_name of
       Some e \<Rightarrow> (Inl e, w)
     | None \<Rightarrow> (Inr (), set_fonts_key hk (AList.update value_name (REG_SZ data) (fonts_key w hk)) w))"

definition DeleteValue :: "world \<Rightarrow> hkey \<Rightarrow> str \<Rightarrow> (exn + unit) \<times> world" where
  "DeleteValue w hk value_name =
    (case DeleteValue_err w hk value_name of
       Some e \<Rightarrow> (Inl e, w)
     | None \<Rightarrow>
         if value_name \<in> set (map fst (fonts_key w hk))
         then (Inr (), set_fonts_key hk (AList.delete value_name (fonts_key w hk)) w)
         else (Inl FileNotFoundError, w))"

definition exists :: "world \<Rightarrow> str \<Rightarrow> bool" where
  "exists w p = (files w p \<noteq> None)"

definition copy2 :: "world \<Rightarrow> str \<Rightarrow> str \<Rightarrow> (exn + unit) \<times> world" where
  "copy2 w src dst =
    (case copy2_err w src dst of
       Some e \<Rightarrow> (Inl e, w)
     | None \<Rightarrow>
         (case files w src of
            None \<Rightarrow> (Inl FileNotFoundError, w)
          | Some contents \<Rightarrow> (Inr (), w\<lparr>files := (files w)(dst \<mapsto> contents)\<rparr>)))"

definition remove :: "world \<Rightarrow> str \<Rightarrow> (exn + unit) \<times> world" where
  "remove w p =
    (case remove_err w p of
       Some e \<Rightarrow> (Inl e, w)
     | None \<Rightarrow>
         (case files w p of
            None \<Rightarrow> (Inl FileNotFoundError, w)
          | Some contents \<Rightarrow> (Inr (), w\<lparr>files := (files w)(p := None)\<rparr>)))"

text \<open>\<open>print(...)\<close> of a diagnostic message.\<close>

definition print :: "world \<Rightarrow> exn + unit" where
  "print w = (case print_err w of Some e \<Rightarrow> Inl e | None \<Rightarrow> Inr ())"


section \<open>FontManager\<close>

record FontManager =
  system_fonts_dir :: str
  user_fonts_dir :: str

text \<open>The labels \<open>U+7CFB U+7EDF U+5B57 U+4F53\<close> and \<open>U+7528 U+6237 U+5B57 U+4F53\<close>.\<close>

definition SYSTEM_FONT :: str where
  "SYSTEM_FONT = [0x7CFB, 0x7EDF, 0x5B57, 0x4F53]"

definition USER_FONT :: str where
  "USER_FONT = [0x7528, 0x6237, 0x5B57, 0x4F53]"

text \<open>The dictionary \<open>{'name', 'file', 'path', 'type'}\<close> of one listed font.\<close>

record font =
  f_name :: str
  f_file :: str
  f_path :: str
  f_type :: str

text \<open>
  \<open>_notify_font_change\<close>: the broadcast returns a status and raises nothing, so the
  handler around it is not entered; the calls are counted.
\<close>

definition notify_font_change :: "world \<Rightarrow> world" where
  "notify_font_change w = w\<lparr>font_changes := Suc (font_changes w)\<rparr>"

subsection \<open>get_installed_fonts\<close>

text \<open>The list \<open>fonts\<close> and the set \<open>added_fonts\<close>, changed by both loop bodies.\<close>

type_synonym scan = "font list \<times> (str \<times> str) set"

text \<open>
  \<open>resolve\<close> is the conditional expression that computes \<open>font_path\<close>.
  \<open>add_font\<close> is the body of the inner \<open>try\<close> after \<open>EnumValue\<close> has returned
  \<open>(name, value, _)\<close>. The two loop bodies differ only in the directory a relative value
  is joined to, here \<open>root\<close>. Data that is not a \<open>str\<close> makes \<open>os.path\<close> or \<open>startswith\<close>
  raise a \<open>TypeError\<close>, except \<open>bytes\<close> naming an absolute path that does not exist, which
  are passed over.
\<close>

definition resolve :: "(str \<Rightarrow> str) \<Rightarrow> str \<Rightarrow> str \<Rightarrow> str" where
  "resolve lc root v = (if \<not> isabs v then join lc root v else v)"

definition add_font ::
  "FontManager \<Rightarrow> world \<Rightarrow> str \<Rightarrow> str \<Rightarrow> regdata \<Rightarrow> scan \<Rightarrow> exn + scan" where
  "add_font self w root value_name data st =
    (case data of
       REG_SZ v \<Rightarrow>
         (let font_path = resolve (str_lower w) root v in
          if exists w font_path then
            (let is_system = prefix (str_lower w (system_fonts_dir self)) (str_lower w font_path);
                 font_key = (value_name, str_lower w font_path)
             in if font_key \<notin> snd st
                then Inr (fst st @ [\<lparr>f_name = value_name, f_file = v, f_path = font_path,
                                     f_type = (if is_system then SYSTEM_FONT else USER_FONT)\<rparr>],
                          insert font_key (snd st))
                else Inr st)
          else Inr st)
     | REG_BINARY b \<Rightarrow>
         if \<not> isabs b then Inl TypeError
         else if exists w (fsdecode w b) then Inl TypeError
         else Inr st
     | REG_DWORD n \<Rightarrow> Inl TypeError)"

text \<open>
  \<open>while True\<close>: an \<open>OSError\<close> of \<open>EnumValue\<close> ends the loop (\<open>break\<close>); any other
  exception leaves it, with what was appended so far kept.
\<close>

function enum_loop ::
  "FontManager \<Rightarrow> world \<Rightarrow> hkey \<Rightarrow> str \<Rightarrow> nat \<Rightarrow> scan \<Rightarrow> exn option \<times> scan" where
  "enum_loop self w hk root i st =
    (case EnumValue w hk i of
       Inl e \<Rightarrow> (None, st)
     | Inr (value_name, data) \<Rightarrow>
         (case add_font self w root value_name data st of
            Inl e \<Rightarrow> (Some e, st)
          | Inr st' \<Rightarrow> enum_loop self w hk root (Suc i) st'))"
  by pat_completeness auto
termination
  by (relation "measure (\<lambda>(self, w, hk, root, i, st). length (fonts_key w hk) - i)")
    (auto simp: EnumValue_def split: if_splits)

text \<open>
  One \<open>try: with OpenKey(...) ... except Exception as e: print(...)\<close> block. The handler
  is not inside any \<open>try\<close>: what its \<open>print\<close> raises leaves \<open>get_installed_fonts\<close>.
\<close>

definition read_fonts_key ::
  "FontManager \<Rightarrow> world \<Rightarrow> hkey \<Rightarrow> str \<Rightarrow> scan \<Rightarrow> exn + scan" where
  "read_fonts_key self w hk root st =
    (case OpenKey w hk KEY_READ of
       Inl e \<Rightarrow> (case print w of Inl e' \<Rightarrow> Inl e' | Inr u \<Rightarrow> Inr st)
     | Inr key \<Rightarrow>
         (case enum_loop self w hk root 0 st of
            (Some e, st') \<Rightarrow> (case print w of Inl e' \<Rightarrow> Inl e' | Inr u \<Rightarrow> Inr st')
          | (None, st') \<Rightarrow> Inr st'))"

definition get_installed_fonts :: "FontManager \<Rightarrow> world \<Rightarrow> exn + font list" where
  "get_installed_fonts self w =
    (case read_fonts_key self w HKEY_LOCAL_MACHINE (system_fonts_dir self) ([], {}) of
       Inl e \<Rightarrow> Inl e
     | Inr st1 \<Rightarrow>
         (case read_fonts_key self w HKEY_CURRENT_USER (user_fonts_dir self) st1 of
            Inl e \<Rightarrow> Inl e
          | Inr st2 \<Rightarrow> Inr (sort_key f_name (fst st2))))"

subsection \<open>install_font\<close>

text \<open>The second component of what \<open>install_font\<close> and \<open>uninstall_font\<close> return.\<close>

datatype message =
    FileNotFound
  | UnsupportedFormat
  | AlreadyInstalled str
  | Installed str
  | InstallNeedsAdmin
  | PermissionDenied
  | InstallFailed exn
  | Uninstalled str
  | UninstallNeedsAdmin
  | RegistryEntryMissing
  | UninstallFailed exn

definition reg_name_of :: "str \<Rightarrow> str \<Rightarrow> str" where
  "reg_name_of ext font_filename =
    (let font_name = fst (splitext font_filename) in
     if ext = lit ''.ttf'' then font_name @ lit '' (TrueType)''
     else if ext = lit ''.otf'' then font_name @ lit '' (OpenType)''
     else font_name)"

text \<open>The branch on \<open>install_type\<close>: target directory, hive and \<open>type_name\<close>.\<close>

definition install_scope :: "FontManager \<Rightarrow> str \<Rightarrow> str \<times> hkey \<times> str" where
  "install_scope self install_type =
    (if install_type = lit ''system''
     then (system_fonts_dir self, HKEY_LOCAL_MACHINE, SYSTEM_FONT)
     else (user_fonts_dir self, HKEY_CURRENT_USER, USER_FONT))"

text \<open>The \<open>try\<close> block of \<open>install_font\<close>; an exception leaves the files as they are then.\<close>

definition install_try ::
  "str \<Rightarrow> str \<Rightarrow> str \<Rightarrow> str \<Rightarrow> hkey \<Rightarrow> str \<Rightarrow> world
    \<Rightarrow> (exn + bool \<times> message) \<times> world" where
  "install_try font_path font_filename ext target_path reg_hkey type_name w =
    (case copy2 w font_path target_path of
       (Inl e, w1) \<Rightarrow> (Inl e, w1)
     | (Inr u, w1) \<Rightarrow>
         (let reg_name = reg_name_of ext font_filename in
          case OpenKey w1 reg_hkey KEY_SET_VALUE of
            Inl e \<Rightarrow> (Inl e, w1)
          | Inr key \<Rightarrow>
              (case SetValueEx w1 reg_hkey reg_name font_filename of
                 (Inl e, w2) \<Rightarrow> (Inl e, w2)
               | (Inr u, w2) \<Rightarrow> (Inr (True, Installed type_name), notify_font_change w2))))"

definition install_font ::
  "FontManager \<Rightarrow> str \<Rightarrow> str \<Rightarrow> world \<Rightarrow> (bool \<times> message) \<times> world" where
  "install_font self font_path install_type w =
    (if \<not> exists w font_path then ((False, FileNotFound), w)
     else
       (let ext = str_lower w (snd (splitext font_path)) in
        if ext \<notin> set [lit ''.ttf'', lit ''.otf'', lit ''.ttc'']
        then ((False, UnsupportedFormat), w)
        else
          (let font_filename = basename font_path;
               (target_dir, reg_hkey, type_name) = install_scope self install_type;
               target_path = join (str_lower w) target_dir font_filename
           in if exists w target_path then ((False, AlreadyInstalled type_name), w)
              else
                (case install_try font_path font_filename ext target_path reg_hkey type_name w of
                   (Inr r, w') \<Rightarrow> (r, w')
                 | (Inl PermissionError, w') \<Rightarrow>
                     (if install_type = lit ''system'' then ((False, InstallNeedsAdmin), w')
                      else ((False, PermissionDenied), w'))
                 | (Inl e, w') \<Rightarrow> ((False, InstallFailed e), w')))))"

subsection \<open>uninstall_font\<close>

text \<open>The branch on \<open>font_type\<close>: hive and font directory.\<close>

definition uninstall_scope :: "FontManager \<Rightarrow> str \<Rightarrow> hkey \<times> str" where
  "uninstall_scope self font_type =
    (if font_type = SYSTEM_FONT then (HKEY_LOCAL_MACHINE, system_fonts_dir self)
     else (HKEY_CURRENT_USER, user_fonts_dir self))"

definition uninstall_try ::
  "str \<Rightarrow> str \<Rightarrow> str \<Rightarrow> hkey \<Rightarrow> str \<Rightarrow> world \<Rightarrow> (exn + bool \<times> message) \<times> world" where
  "uninstall_try font_name font_file font_type reg_hkey font_dir w =
    (case OpenKey w reg_hkey KEY_SET_VALUE of
       Inl e \<Rightarrow> (Inl e, w)
     | Inr key \<Rightarrow>
         (case DeleteValue w reg_hkey font_name of
            (Inl e, w1) \<Rightarrow> (Inl e, w1)
          | (Inr u, w1) \<Rightarrow>
              (let font_path = join (str_lower w) font_dir font_file in
               case (if exists w1 font_path then remove w1 font_path else (Inr (), w1)) of
                 (Inl e, w2) \<Rightarrow> (Inl e, w2)
               | (Inr u, w2) \<Rightarrow> (Inr (True, Uninstalled font_type), notify_font_change w2))))"

definition uninstall_font ::
  "FontManager \<Rightarrow> str \<Rightarrow> str \<Rightarrow> str \<Rightarrow> world \<Rightarrow> (bool \<times> message) \<times> world" where
  "uninstall_font self font_name font_file font_type w =
    (let (reg_hkey, font_dir) = uninstall_scope self font_type
     in case uninstall_try font_name font_file font_type reg_hkey font_dir w of
          (Inr r, w') \<Rightarrow> (r, w')
        | (Inl PermissionError, w') \<Rightarrow>
            (if font_type = SYSTEM_FONT then ((False, UninstallNeedsAdmin), w')
             else ((False, PermissionDenied), w'))
        | (Inl FileNotFoundError, w') \<Rightarrow> ((False, RegistryEntryMissing), w')
        | (Inl e, w') \<Rightarrow> ((False, UninstallFailed e), w'))"


section \<open>Notions used to state the properties\<close>

text \<open>The key \<open>font_key\<close> of a listed font: its name and its lowercased path.\<close>

definition font_key :: "world \<Rightarrow> font \<Rightarrow> str \<times> str" where
  "font_key w r = (f_name r, str_lower w (f_path r))"

text \<open>The directory that the loop over a hive joins relative values to.\<close>

fun root_of :: "FontManager \<Rightarrow> hkey \<Rightarrow> str" where
  "root_of self HKEY_LOCAL_MACHINE = system_fonts_dir self"
| "root_of self HKEY_CURRENT_USER = user_fonts_dir self"

text \<open>Data on which \<^const>\<open>add_font\<close> raises nothing.\<close>

fun data_ok :: "world \<Rightarrow> regdata \<Rightarrow> bool" where
  "data_ok w (REG_SZ v) = True"
| "data_ok w (REG_BINARY b) = (isabs b \<and> \<not> exists w (fsdecode w b))"
| "data_ok w (REG_DWORD n) = False"

text \<open>
  The loop over hive \<open>hk\<close> gets as far as the value of index \<open>k\<close>: the key opens for
  reading, and no value up to \<open>k\<close> is refused by \<open>EnumValue\<close> or raises.
\<close>

definition reached :: "world \<Rightarrow> hkey \<Rightarrow> nat \<Rightarrow> bool" where
  "reached w hk k =
    (OpenKey_err w hk KEY_READ = None \<and> k < length (fonts_key w hk) \<and>
     list_all (\<lambda>j. \<not> EnumValue_err w hk j \<and> data_ok w (snd (fonts_key w hk ! j))) [0..<Suc k])"


text \<open>
  What holds of every dictionary a loop appends: its file exists, and its type is the
  system label exactly when the lowercased path starts with the lowercased system
  directory. \<open>scan_inv\<close> is the invariant of either loop: \<open>added_fonts\<close> holds the keys
  of \<open>fonts\<close>, no key occurs twice, and every dictionary is as described.
\<close>

definition listed_ok :: "FontManager \<Rightarrow> world \<Rightarrow> font \<Rightarrow> bool" where
  "listed_ok self w r =
    (exists w (f_path r) \<and>
     f_type r = (if prefix (str_lower w (system_fonts_dir self)) (str_lower w (f_path r))
                 then SYSTEM_FONT else USER_FONT))"

definition scan_inv :: "FontManager \<Rightarrow> world \<Rightarrow> scan \<Rightarrow> bool" where
  "scan_inv self w st =
    (snd st = font_key w ` set (fst st) \<and> distinct (map (font_key w) (fst st)) \<and>
     list_all (listed_ok self w) (fst st))"

subsection \<open>Machines to run the operations on\<close>

definition manager0 :: FontManager where
  "manager0 = \<lparr>system_fonts_dir = win ''C:/Windows/Fonts'',
               user_fonts_dir = win ''C:/Users/u/AppData/Local/Microsoft/Windows/Fonts''\<rparr>"

text \<open>
  A machine where the system refuses nothing and \<open>print\<close> succeeds, with one system font
  and three downloads. All its strings are ASCII.
\<close>

definition world0 :: world where
  "world0 = \<lparr>files = [win ''C:/Windows/Fonts/arial.ttf'' \<mapsto> lit ''arial'',
                      win ''C:/dl/Demo.ttf'' \<mapsto> lit ''demo'',
                      win ''C:/dl/Pack.ttc'' \<mapsto> lit ''pack'',
                      win ''C:/dl/notes.txt'' \<mapsto> lit ''notes''],
             hklm_fonts = [(lit ''Arial (TrueType)'', REG_SZ (lit ''arial.ttf''))],
             hkcu_fonts = [],
             font_changes = 0,
             OpenKey_err = (\<lambda>hk access. None),
             EnumValue_err = (\<lambda>hk i. False),
             SetValueEx_err = (\<lambda>hk value_name. None),
             DeleteValue_err = (\<lambda>hk value_name. None),
             copy2_err = (\<lambda>src dst. None),
             remove_err = (\<lambda>p. None),
             print_err = None,
             str_lower = ascii_lower,
             fsdecode = (\<lambda>b. b)\<rparr>"

text \<open>A stale entry of the user hive: the value is there, its file is not.\<close>

definition world_stale :: world where
  "world_stale = world0\<lparr>hkcu_fonts := [(lit ''Gone (TrueType)'', REG_SZ (lit ''Gone.ttf''))]\<rparr>"

text \<open>An installed user font whose file the system refuses to delete.\<close>

definition world_busy :: world where
  "world_busy = world0
     \<lparr>files := (files world0)
        (win ''C:/Users/u/AppData/Local/Microsoft/Windows/Fonts/Busy.ttf'' \<mapsto> lit ''busy''),
      hkcu_fonts := [(lit ''Busy (TrueType)'', REG_SZ (lit ''Busy.ttf''))],
      remove_err := (\<lambda>p. Some PermissionError)\<rparr>"


text \<open>The system font registered once more in the user hive, by its absolute path.\<close>

definition world_both :: world where
  "world_both = world0
     \<lparr>hkcu_fonts := [(lit ''Arial (TrueType)'', REG_SZ (win ''C:/Windows/Fonts/arial.ttf''))]\<rparr>"

text \<open>A font in a directory beside the system font directory, registered by the user.\<close>

definition world_sibling :: world where
  "world_sibling = world0
     \<lparr>files := (files world0)(win ''C:/Windows/FontsBackup/old.ttf'' \<mapsto> lit ''old''),
      hkcu_fonts := [(lit ''Old (TrueType)'', REG_SZ (win ''C:/Windows/FontsBackup/old.ttf''))]\<rparr>"

text \<open>
  The machine hive cannot be opened and the standard output cannot encode the message;
  the user hive holds an installed font.
\<close>

definition world_mute :: world where
  "world_mute = world_busy
     \<lparr>OpenKey_err :=
        (\<lambda>hk access. if hk = HKEY_LOCAL_MACHINE then Some PermissionError else None),
      print_err := Some UnicodeEncodeError\<rparr>"

text \<open>
  The machine hive already names \<open>Demo (TrueType)\<close>, with the absolute path of a file in
  the user font directory that does not exist yet.
\<close>

definition world_shadow :: world where
  "world_shadow = world0
     \<lparr>hklm_fonts := [(lit ''Arial (TrueType)'', REG_SZ (lit ''arial.ttf'')),
        (lit ''Demo (TrueType)'',
         REG_SZ (win ''C:/Users/u/AppData/Local/Microsoft/Windows/Fonts/Demo.ttf''))]\<rparr>"

text \<open>The user hive holds a number before anything else.\<close>

definition world_dword :: world where
  "world_dword = world0\<lparr>hkcu_fonts := [(lit ''Count'', REG_DWORD 7)]\<rparr>"


text \<open>\<^const>\<open>world0\<close> after \<open>Demo.ttf\<close> has been installed for the user.\<close>

definition world_demo :: world where
  "world_demo = world0
     \<lparr>files := (files world0)
        (win ''C:/Users/u/AppData/Local/Microsoft/Windows/Fonts/Demo.ttf'' \<mapsto> lit ''demo''),
      hkcu_fonts := [(lit ''Demo (TrueType)'', REG_SZ (lit ''Demo.ttf''))],
      font_changes := 1\<rparr>"


section \<open>Facts about the machine model and the example machines\<close>

lemmas path_defs = splitext_def rfind_def basename_def splitdrive_def win_def lit_def
  replace_altsep_def sep_def altsep_def colon_def extsep_def is_sep_def ascii_lower_def
  ascii_upper_def join_def join_result_def isabs_def find_chr_def unc_prefix_def

lemma labels_differ: "USER_FONT \<noteq> SYSTEM_FONT"
  by (simp add: USER_FONT_def SYSTEM_FONT_def)

lemma fonts_key_set_fonts_key: "fonts_key (set_fonts_key hk vs w) hk = vs"
  by (cases hk) simp_all

lemma DeleteValue_ok:
  assumes "DeleteValue w hk n = (Inr u, w1)"
  shows "w1 = set_fonts_key hk (AList.delete n (fonts_key w hk)) w"
    and "n \<in> set (map fst (fonts_key w hk))"
    and "DeleteValue_err w hk n = None"
  using assms by (auto simp: DeleteValue_def split: option.splits if_splits)

lemma remove_fails:
  assumes "remove w p = (Inl e, w2)"
  shows "w2 = w"
  using assms by (auto simp: remove_def split: option.splits)

lemma world0_files:
  "exists world0 (win ''C:/dl/Demo.ttf'')"
  "exists world0 (win ''C:/dl/Pack.ttc'')"
  "exists world0 (win ''C:/dl/notes.txt'')"
  "\<not> exists world0 (win ''C:/dl/Absent.ttf'')"
  "exists world0 (win ''C:/Windows/Fonts/arial.ttf'')"
  by (simp_all add: exists_def world0_def win_def lit_def replace_altsep_def sep_def altsep_def)

lemma world0_lower: "str_lower world0 = ascii_lower"
  by (simp add: world0_def)

lemma worlds_lower:
  "str_lower world_stale = ascii_lower" "str_lower world_busy = ascii_lower"
  "str_lower world_both = ascii_lower" "str_lower world_sibling = ascii_lower"
  "str_lower world_mute = ascii_lower" "str_lower world_shadow = ascii_lower"
  "str_lower world_dword = ascii_lower" "str_lower world_demo = ascii_lower"
  by (simp_all add: world_stale_def world_busy_def world_both_def world_sibling_def
      world_mute_def world_shadow_def world_dword_def world_demo_def world0_def)

lemma ext_examples:
  "ascii_lower (snd (splitext (win ''C:/dl/notes.txt''))) = lit ''.txt''"
  "ascii_lower (snd (splitext (win ''C:/Windows/Fonts/arial.ttf''))) = lit ''.ttf''"
  "ascii_lower (snd (splitext (win ''C:/dl/Demo.ttf''))) = lit ''.ttf''"
  "ascii_lower (snd (splitext (win ''C:/dl/Pack.ttc''))) = lit ''.ttc''"
  by (simp_all add: path_defs)

lemma lit_eq_iff: "lit a = lit b \<longleftrightarrow> a = b"
  unfolding lit_def by (simp add: inj_map_eq_map inj_on_def)

lemma lit_append: "lit a @ lit b = lit (a @ b)"
  by (simp add: lit_def)

lemma basename_examples:
  "basename (win ''C:/Windows/Fonts/arial.ttf'') = lit ''arial.ttf''"
  "basename (win ''C:/dl/Demo.ttf'') = lit ''Demo.ttf''"
  "basename (win ''C:/dl/Pack.ttc'') = lit ''Pack.ttc''"
  by (simp_all add: path_defs)

lemma join_examples:
  "join ascii_lower (system_fonts_dir manager0) (lit ''arial.ttf'') =
     win ''C:/Windows/Fonts/arial.ttf''"
  "join ascii_lower (user_fonts_dir manager0) (lit ''Demo.ttf'') =
     win ''C:/Users/u/AppData/Local/Microsoft/Windows/Fonts/Demo.ttf''"
  "join ascii_lower (user_fonts_dir manager0) (lit ''Pack.ttc'') =
     win ''C:/Users/u/AppData/Local/Microsoft/Windows/Fonts/Pack.ttc''"
  "join ascii_lower (user_fonts_dir manager0) (lit ''Gone.ttf'') =
     win ''C:/Users/u/AppData/Local/Microsoft/Windows/Fonts/Gone.ttf''"
  "join ascii_lower (user_fonts_dir manager0) (lit ''Busy.ttf'') =
     win ''C:/Users/u/AppData/Local/Microsoft/Windows/Fonts/Busy.ttf''"
  by (simp_all add: path_defs manager0_def)


section \<open>Installing: the order of the checks, and no change when one fails\<close>

text \<open>
  Claim C4. \<open>install_font\<close> checks, in this order, that the source exists, that its
  lowercased extension is one of \<open>.ttf\<close>, \<open>.otf\<close>, \<open>.ttc\<close>, and that no file exists at the
  target path; the first check that fails decides the answer: \<open>FileNotFound\<close>, then
  \<open>UnsupportedFormat\<close>, then \<open>AlreadyInstalled\<close> with the label of the chosen scope.
\<close>

theorem install_font_validation_order:
  "(\<not> exists w p \<longrightarrow> fst (install_font self p t w) = (False, FileNotFound)) \<and>
   (exists w p \<and>
    str_lower w (snd (splitext p)) \<notin> {lit ''.ttf'', lit ''.otf'', lit ''.ttc''} \<longrightarrow>
      fst (install_font self p t w) = (False, UnsupportedFormat)) \<and>
   (exists w p \<and>
    str_lower w (snd (splitext p)) \<in> {lit ''.ttf'', lit ''.otf'', lit ''.ttc''} \<and>
    exists w (join (str_lower w) (fst (install_scope self t)) (basename p)) \<longrightarrow>
      fst (install_font self p t w) =
        (False, AlreadyInstalled (snd (snd (install_scope self t)))))"
  by (simp add: install_font_def Let_def split: prod.splits)

theorem install_font_validation_order_witness:
  "fst (install_font manager0 (win ''C:/dl/Absent.ttf'') (lit ''user'') world0) =
     (False, FileNotFound) \<and>
   fst (install_font manager0 (win ''C:/dl/notes.txt'') (lit ''user'') world0) =
     (False, UnsupportedFormat) \<and>
   fst (install_font manager0 (win ''C:/Windows/Fonts/arial.ttf'') (lit ''system'') world0) =
     (False, AlreadyInstalled SYSTEM_FONT)"
  using install_font_validation_order
      [of world0 "win ''C:/dl/Absent.ttf''" manager0 "lit ''user''"]
    install_font_validation_order [of world0 "win ''C:/dl/notes.txt''" manager0 "lit ''user''"]
    install_font_validation_order
      [of world0 "win ''C:/Windows/Fonts/arial.ttf''" manager0 "lit ''system''"]
  by (simp add: world0_files world0_lower ext_examples basename_examples install_scope_def
      join_examples lit_eq_iff)

text \<open>
  Claim C5. When the source is missing, or its extension is not allowed, or a file already
  exists at the target path, \<open>install_font\<close> answers \<open>False\<close> and leaves the whole state as
  it was: no file is written, so the file at the target path keeps its contents, and no
  registry value is set.
\<close>

theorem install_font_no_mutation:
  assumes "\<not> exists w p \<or>
           str_lower w (snd (splitext p)) \<notin> {lit ''.ttf'', lit ''.otf'', lit ''.ttc''} \<or>
           exists w (join (str_lower w) (fst (install_scope self t)) (basename p))"
  shows "snd (install_font self p t w) = w \<and> \<not> fst (fst (install_font self p t w)) \<and>
         files (snd (install_font self p t w))
             (join (str_lower w) (fst (install_scope self t)) (basename p)) =
           files w (join (str_lower w) (fst (install_scope self t)) (basename p))"
  using assms by (auto simp add: install_font_def Let_def split: prod.splits)

theorem install_font_no_mutation_witness:
  "snd (install_font manager0 (win ''C:/Windows/Fonts/arial.ttf'') (lit ''system'') world0) =
     world0 \<and>
   files (snd (install_font manager0 (win ''C:/Windows/Fonts/arial.ttf'') (lit ''system'') world0))
     (win ''C:/Windows/Fonts/arial.ttf'') = Some (lit ''arial'')"
proof -
  have target: "exists world0 (join (str_lower world0) (fst (install_scope manager0 (lit ''system'')))
                   (basename (win ''C:/Windows/Fonts/arial.ttf'')))"
    by (simp add: install_scope_def basename_examples join_examples world0_files world0_lower)
  have "snd (install_font manager0 (win ''C:/Windows/Fonts/arial.ttf'') (lit ''system'') world0)
      = world0"
    using install_font_no_mutation
      [of world0 "win ''C:/Windows/Fonts/arial.ttf''" manager0 "lit ''system''"] target
    by simp
  moreover have "files world0 (win ''C:/Windows/Fonts/arial.ttf'') = Some (lit ''arial'')"
    by (simp add: world0_def win_def lit_def replace_altsep_def sep_def altsep_def)
  ultimately show ?thesis by simp
qed


section \<open>Uninstalling\<close>

text \<open>
  Claim C7. When the key opens for writing and \<open>DeleteValue\<close> removes the value, and no
  file exists at the joined path, \<open>uninstall_font\<close> answers \<open>True\<close>: the missing file is
  not an error. The state is the one after the deletion, with one more broadcast.
\<close>

theorem uninstall_font_missing_file:
  assumes "uninstall_scope self font_type = (hk, dir)"
    and "OpenKey w hk KEY_SET_VALUE = Inr ()"
    and "DeleteValue w hk font_name = (Inr (), w1)"
    and "\<not> exists w1 (join (str_lower w) dir font_file)"
  shows "uninstall_font self font_name font_file font_type w =
           ((True, Uninstalled font_type), notify_font_change w1)"
  using assms by (simp add: uninstall_font_def uninstall_try_def)

theorem uninstall_font_missing_file_witness:
  "uninstall_font manager0 (lit ''Gone (TrueType)'') (lit ''Gone.ttf'') USER_FONT world_stale =
     ((True, Uninstalled USER_FONT), notify_font_change (world_stale\<lparr>hkcu_fonts := []\<rparr>))"
proof -
  have scope: "uninstall_scope manager0 USER_FONT = (HKEY_CURRENT_USER, user_fonts_dir manager0)"
    by (simp add: uninstall_scope_def labels_differ)
  have opens: "OpenKey world_stale HKEY_CURRENT_USER KEY_SET_VALUE = Inr ()"
    by (simp add: OpenKey_def world_stale_def world0_def)
  have deleted: "DeleteValue world_stale HKEY_CURRENT_USER (lit ''Gone (TrueType)'') =
      (Inr (), world_stale\<lparr>hkcu_fonts := []\<rparr>)"
    by (simp add: DeleteValue_def world_stale_def world0_def AList.delete_eq)
  have missing: "\<not> exists (world_stale\<lparr>hkcu_fonts := []\<rparr>)
      (join (str_lower world_stale) (user_fonts_dir manager0) (lit ''Gone.ttf''))"
    unfolding worlds_lower join_examples
    by (simp add: exists_def world_stale_def world0_def win_def lit_def replace_altsep_def
        sep_def altsep_def)
  show ?thesis
    by (rule uninstall_font_missing_file [OF scope opens deleted missing])
qed

text \<open>
  Claim C9. When \<open>DeleteValue\<close> has removed the value and the file exists but \<open>os.remove\<close>
  raises, \<open>uninstall_font\<close> answers \<open>False\<close>; the state it leaves is the one after the
  deletion, so the value stays deleted, and no broadcast was made.
\<close>

theorem uninstall_font_no_rollback:
  assumes "uninstall_scope self font_type = (hk, dir)"
    and "OpenKey w hk KEY_SET_VALUE = Inr ()"
    and "DeleteValue w hk font_name = (Inr (), w1)"
    and "exists w1 (join (str_lower w) dir font_file)"
    and "remove w1 (join (str_lower w) dir font_file) = (Inl e, w2)"
  shows "\<not> fst (fst (uninstall_font self font_name font_file font_type w)) \<and>
         snd (uninstall_font self font_name font_file font_type w) = w1 \<and>
         font_name \<notin> set (map fst (fonts_key w1 hk)) \<and>
         font_changes w1 = font_changes w"
proof -
  have w2: "w2 = w1"
    using assms(5) by (rule remove_fails)
  have w1: "w1 = set_fonts_key hk (AList.delete font_name (fonts_key w hk)) w"
    using assms(3) by (rule DeleteValue_ok)
  have gone: "font_name \<notin> set (map fst (fonts_key w1 hk))"
    by (auto simp add: w1 fonts_key_set_fonts_key AList.delete_eq)
  have same: "font_changes w1 = font_changes w"
    by (cases hk) (simp_all add: w1)
  have res: "uninstall_try font_name font_file font_type hk dir w = (Inl e, w1)"
    using assms w2 by (simp add: uninstall_try_def)
  show ?thesis
    using res assms(1) gone same by (cases e) (simp_all add: uninstall_font_def)
qed

theorem uninstall_font_no_rollback_witness:
  "\<not> fst (fst (uninstall_font manager0 (lit ''Busy (TrueType)'') (lit ''Busy.ttf'') USER_FONT
              world_busy)) \<and>
   hkcu_fonts (snd (uninstall_font manager0 (lit ''Busy (TrueType)'') (lit ''Busy.ttf'') USER_FONT
              world_busy)) = [] \<and>
   font_changes (snd (uninstall_font manager0 (lit ''Busy (TrueType)'') (lit ''Busy.ttf'')
              USER_FONT world_busy)) = 0"
proof -
  have scope: "uninstall_scope manager0 USER_FONT = (HKEY_CURRENT_USER, user_fonts_dir manager0)"
    by (simp add: uninstall_scope_def labels_differ)
  have opens: "OpenKey world_busy HKEY_CURRENT_USER KEY_SET_VALUE = Inr ()"
    by (simp add: OpenKey_def world_busy_def world0_def)
  have deleted: "DeleteValue world_busy HKEY_CURRENT_USER (lit ''Busy (TrueType)'') =
      (Inr (), world_busy\<lparr>hkcu_fonts := []\<rparr>)"
    by (simp add: DeleteValue_def world_busy_def world0_def AList.delete_eq)
  have target: "join (str_lower world_busy) (user_fonts_dir manager0) (lit ''Busy.ttf'') =
      win ''C:/Users/u/AppData/Local/Microsoft/Windows/Fonts/Busy.ttf''"
    by (simp only: worlds_lower join_examples)
  have there: "exists (world_busy\<lparr>hkcu_fonts := []\<rparr>)
      (join (str_lower world_busy) (user_fonts_dir manager0) (lit ''Busy.ttf''))"
    unfolding target by (simp add: exists_def world_busy_def)
  have refused: "remove (world_busy\<lparr>hkcu_fonts := []\<rparr>)
      (join (str_lower world_busy) (user_fonts_dir manager0) (lit ''Busy.ttf''))
      = (Inl PermissionError, world_busy\<lparr>hkcu_fonts := []\<rparr>)"
    unfolding target by (simp add: remove_def world_busy_def)
  show ?thesis
    using uninstall_font_no_rollback [OF scope opens deleted there refused]
    by (simp add: world_busy_def world0_def)
qed


section \<open>The scope arguments\<close>

lemma install_try_frame:
  assumes "install_try p f ext tgt HKEY_CURRENT_USER ty w = (r, w')"
  shows "hklm_fonts w' = hklm_fonts w" and "q \<noteq> tgt \<Longrightarrow> files w' q = files w q"
  using assms
  by (auto simp add: install_try_def copy2_def OpenKey_def SetValueEx_def notify_font_change_def
      Let_def split: option.splits sum.splits prod.splits)

lemma uninstall_try_frame:
  assumes "uninstall_try n f ty HKEY_CURRENT_USER dir w = (r, w')"
  shows "hklm_fonts w' = hklm_fonts w"
    and "q \<noteq> join (str_lower w) dir f \<Longrightarrow> files w' q = files w q"
  using assms
  by (auto simp add: uninstall_try_def DeleteValue_def OpenKey_def remove_def
      notify_font_change_def Let_def split: option.splits sum.splits prod.splits if_splits)

lemma install_font_world:
  assumes "install_scope self t = (dir, hk, ty)"
  shows "snd (install_font self p t w) = w \<or>
         snd (install_font self p t w) =
           snd (install_try p (basename p) (str_lower w (snd (splitext p)))
                  (join (str_lower w) dir (basename p)) hk ty w)"
proof -
  define ext where "ext = str_lower w (snd (splitext p))"
  define tgt where "tgt = join (str_lower w) dir (basename p)"
  obtain r w' where tr: "install_try p (basename p) ext tgt hk ty w = (r, w')"
    by (cases "install_try p (basename p) ext tgt hk ty w")
  show ?thesis
  proof (cases "\<not> exists w p \<or> ext \<notin> set [lit ''.ttf'', lit ''.otf'', lit ''.ttc''] \<or>
      exists w tgt")
    case True
    then have "snd (install_font self p t w) = w"
      unfolding install_font_def Let_def ext_def [symmetric] assms prod.case tgt_def [symmetric]
      by auto
    then show ?thesis by simp
  next
    case False
    then have "install_font self p t w =
        (case (r, w') of
           (Inr r, w') \<Rightarrow> (r, w')
         | (Inl PermissionError, w') \<Rightarrow>
             (if t = lit ''system'' then ((False, InstallNeedsAdmin), w')
              else ((False, PermissionDenied), w'))
         | (Inl e, w') \<Rightarrow> ((False, InstallFailed e), w'))"
      unfolding install_font_def Let_def ext_def [symmetric] assms prod.case tgt_def [symmetric] tr
      by simp
    then have "snd (install_font self p t w) = w'"
      by (cases r; cases "projl r") simp_all
    then show ?thesis using tr by (simp add: ext_def tgt_def)
  qed
qed

lemma uninstall_font_world:
  assumes "uninstall_scope self ty = (hk, dir)"
  shows "snd (uninstall_font self n f ty w) = snd (uninstall_try n f ty hk dir w)"
proof -
  obtain r w' where tr: "uninstall_try n f ty hk dir w = (r, w')"
    by (cases "uninstall_try n f ty hk dir w")
  show ?thesis
  proof (cases r)
    case (Inl e)
    then show ?thesis using assms tr by (cases e) (simp_all add: uninstall_font_def)
  next
    case (Inr res)
    then show ?thesis using assms tr by (simp add: uninstall_font_def)
  qed
qed

lemma uninstall_try_result:
  "(\<exists>e. fst (uninstall_try n f ty hk dir w) = Inl e) \<or>
   fst (uninstall_try n f ty hk dir w) = Inr (True, Uninstalled ty)"
  by (auto simp add: uninstall_try_def Let_def split: sum.splits prod.splits)

text \<open>
  Claim C10. Neither operation checks its scope argument, and neither rejects a value.
  With any \<open>install_type\<close> other than \<open>'system'\<close>, \<open>install_font\<close> installs for the user:
  when the checks of the file pass and the system refuses nothing it answers \<open>True\<close>,
  having copied the file to the path joined from the user font directory and the file
  name, and set the value in the user hive; in every case the machine hive and every
  other file are as before; and the answer and state are those for \<open>'user'\<close>. With any
  \<open>font_type\<close> other than the system label, \<open>uninstall_font\<close> uninstalls for the user:
  when the value is in the user hive and the system refuses nothing it answers \<open>True\<close>
  with the given label, having deleted the value from the user hive and the file at the
  path joined from the user font directory and the file name; in every case the machine
  hive and every other file are as before; and the flag and state are those for the user
  label.
\<close>

theorem scope_never_validated:
  fixes self :: FontManager and w :: world and p f n :: str
  defines "tgt \<equiv> join (str_lower w) (user_fonts_dir self) (basename p)"
    and "rn \<equiv> reg_name_of (str_lower w (snd (splitext p))) (basename p)"
    and "utgt \<equiv> join (str_lower w) (user_fonts_dir self) f"
  assumes "install_type \<noteq> lit ''system''" and "font_type \<noteq> SYSTEM_FONT"
  shows
    "(exists w p \<and> str_lower w (snd (splitext p)) \<in> {lit ''.ttf'', lit ''.otf'', lit ''.ttc''} \<and>
      \<not> exists w tgt \<and> copy2_err w p tgt = None \<and>
      OpenKey_err w HKEY_CURRENT_USER KEY_SET_VALUE = None \<and>
      SetValueEx_err w HKEY_CURRENT_USER rn = None \<longrightarrow>
        install_font self p install_type w =
          ((True, Installed USER_FONT),
           notify_font_change
             (w\<lparr>files := (files w)(tgt \<mapsto> the (files w p)),
                hkcu_fonts := AList.update rn (REG_SZ (basename p)) (hkcu_fonts w)\<rparr>))) \<and>
     hklm_fonts (snd (install_font self p install_type w)) = hklm_fonts w \<and>
     (\<forall>q. q \<noteq> tgt \<longrightarrow> files (snd (install_font self p install_type w)) q = files w q) \<and>
     install_font self p install_type w = install_font self p (lit ''user'') w \<and>
     (OpenKey_err w HKEY_CURRENT_USER KEY_SET_VALUE = None \<and>
      DeleteValue_err w HKEY_CURRENT_USER n = None \<and> n \<in> set (map fst (hkcu_fonts w)) \<and>
      remove_err w utgt = None \<longrightarrow>
        uninstall_font self n f font_type w =
          ((True, Uninstalled font_type),
           notify_font_change
             (w\<lparr>hkcu_fonts := AList.delete n (hkcu_fonts w),
                files := (files w)(utgt := None)\<rparr>))) \<and>
     hklm_fonts (snd (uninstall_font self n f font_type w)) = hklm_fonts w \<and>
     (\<forall>q. q \<noteq> utgt \<longrightarrow> files (snd (uninstall_font self n f font_type w)) q = files w q) \<and>
     snd (uninstall_font self n f font_type w) = snd (uninstall_font self n f USER_FONT w) \<and>
     fst (fst (uninstall_font self n f font_type w)) =
       fst (fst (uninstall_font self n f USER_FONT w))"
proof -
  have isc: "install_scope self install_type =
      (user_fonts_dir self, HKEY_CURRENT_USER, USER_FONT)"
    using assms(4) by (simp add: install_scope_def)
  have usc: "uninstall_scope self font_type = (HKEY_CURRENT_USER, user_fonts_dir self)"
    using assms(5) by (simp add: uninstall_scope_def)
  have i1: "install_font self p install_type w =
      ((True, Installed USER_FONT),
       notify_font_change
         (w\<lparr>files := (files w)(tgt \<mapsto> the (files w p)),
            hkcu_fonts := AList.update rn (REG_SZ (basename p)) (hkcu_fonts w)\<rparr>))"
    if ex: "exists w p"
      and "str_lower w (snd (splitext p)) \<in> {lit ''.ttf'', lit ''.otf'', lit ''.ttc''}"
      and "\<not> exists w tgt" and "copy2_err w p tgt = None"
      and "OpenKey_err w HKEY_CURRENT_USER KEY_SET_VALUE = None"
      and "SetValueEx_err w HKEY_CURRENT_USER rn = None"
  proof -
    obtain c where c: "files w p = Some c" using ex by (auto simp add: exists_def)
    have "install_try p (basename p) (str_lower w (snd (splitext p))) tgt HKEY_CURRENT_USER
        USER_FONT w =
      (Inr (True, Installed USER_FONT),
       notify_font_change
         (w\<lparr>files := (files w)(tgt \<mapsto> c),
            hkcu_fonts := AList.update rn (REG_SZ (basename p)) (hkcu_fonts w)\<rparr>))"
      using that(4,5,6) c
      by (simp add: install_try_def copy2_def OpenKey_def SetValueEx_def rn_def)
    then show ?thesis
      using that(1,2,3) isc c by (auto simp add: install_font_def tgt_def Let_def)
  qed
  have iw: "snd (install_font self p install_type w) = w \<or>
      snd (install_font self p install_type w) =
        snd (install_try p (basename p) (str_lower w (snd (splitext p))) tgt HKEY_CURRENT_USER
               USER_FONT w)"
    unfolding tgt_def using isc by (rule install_font_world)
  obtain r w' where tr: "install_try p (basename p) (str_lower w (snd (splitext p))) tgt
      HKEY_CURRENT_USER USER_FONT w = (r, w')"
    by (cases "install_try p (basename p) (str_lower w (snd (splitext p))) tgt
      HKEY_CURRENT_USER USER_FONT w")
  have i2: "hklm_fonts (snd (install_font self p install_type w)) = hklm_fonts w"
    using iw tr install_try_frame(1) [OF tr] by auto
  have i3: "files (snd (install_font self p install_type w)) q = files w q" if "q \<noteq> tgt" for q
    using iw tr install_try_frame(2) [OF tr that] by auto
  have i4: "install_font self p install_type w = install_font self p (lit ''user'') w"
    using assms(4)
    by (simp add: install_font_def install_scope_def Let_def lit_eq_iff
        split: prod.splits sum.splits exn.splits)
  have u1: "uninstall_font self n f font_type w =
      ((True, Uninstalled font_type),
       notify_font_change
         (w\<lparr>hkcu_fonts := AList.delete n (hkcu_fonts w), files := (files w)(utgt := None)\<rparr>))"
    if "OpenKey_err w HKEY_CURRENT_USER KEY_SET_VALUE = None"
      and "DeleteValue_err w HKEY_CURRENT_USER n = None"
      and "n \<in> set (map fst (hkcu_fonts w))" and "remove_err w utgt = None"
  proof (cases "files w utgt")
    case None
    then have "w\<lparr>hkcu_fonts := AList.delete n (hkcu_fonts w), files := (files w)(utgt := None)\<rparr>
        = w\<lparr>hkcu_fonts := AList.delete n (hkcu_fonts w)\<rparr>"
      by (simp add: fun_upd_idem)
    then show ?thesis
      using that usc None
      by (simp add: uninstall_font_def uninstall_try_def OpenKey_def DeleteValue_def exists_def
          utgt_def)
  next
    case (Some c)
    then show ?thesis
      using that usc
      by (simp add: uninstall_font_def uninstall_try_def OpenKey_def DeleteValue_def exists_def
          remove_def utgt_def)
  qed
  have uw: "snd (uninstall_font self n f font_type w) =
      snd (uninstall_try n f font_type HKEY_CURRENT_USER (user_fonts_dir self) w)"
    using usc by (rule uninstall_font_world)
  obtain ur uw' where utr: "uninstall_try n f font_type HKEY_CURRENT_USER (user_fonts_dir self) w
      = (ur, uw')"
    by (cases "uninstall_try n f font_type HKEY_CURRENT_USER (user_fonts_dir self) w")
  have u2: "hklm_fonts (snd (uninstall_font self n f font_type w)) = hklm_fonts w"
    using uw utr uninstall_try_frame(1) [OF utr] by simp
  have u3: "files (snd (uninstall_font self n f font_type w)) q = files w q" if "q \<noteq> utgt" for q
    using uw utr uninstall_try_frame(2) [OF utr] that by (simp add: utgt_def)
  have usc': "uninstall_scope self USER_FONT = (HKEY_CURRENT_USER, user_fonts_dir self)"
    by (simp add: uninstall_scope_def labels_differ)
  have uw_user: "snd (uninstall_font self n f USER_FONT w) =
      snd (uninstall_try n f USER_FONT HKEY_CURRENT_USER (user_fonts_dir self) w)"
    using usc' by (rule uninstall_font_world)
  have same_try: "snd (uninstall_try n f font_type HKEY_CURRENT_USER (user_fonts_dir self) w) =
      snd (uninstall_try n f USER_FONT HKEY_CURRENT_USER (user_fonts_dir self) w) \<and>
      (fst (uninstall_try n f font_type HKEY_CURRENT_USER (user_fonts_dir self) w) =
         Inr (True, Uninstalled font_type) \<and>
       fst (uninstall_try n f USER_FONT HKEY_CURRENT_USER (user_fonts_dir self) w) =
         Inr (True, Uninstalled USER_FONT) \<or>
       (\<exists>e. fst (uninstall_try n f font_type HKEY_CURRENT_USER (user_fonts_dir self) w) = Inl e \<and>
            fst (uninstall_try n f USER_FONT HKEY_CURRENT_USER (user_fonts_dir self) w) = Inl e))"
    by (auto simp add: uninstall_try_def Let_def split: sum.splits prod.splits)
  have flag: "fst (fst (uninstall_font self n f ty w)) =
      (\<exists>m. fst (uninstall_try n f ty HKEY_CURRENT_USER (user_fonts_dir self) w) = Inr (True, m))"
    if "uninstall_scope self ty = (HKEY_CURRENT_USER, user_fonts_dir self)" for ty
    using that uninstall_try_result [of n f ty HKEY_CURRENT_USER "user_fonts_dir self" w]
    by (cases "uninstall_try n f ty HKEY_CURRENT_USER (user_fonts_dir self) w")
      (auto simp add: uninstall_font_def split: sum.splits exn.splits)
  have u4: "snd (uninstall_font self n f font_type w) = snd (uninstall_font self n f USER_FONT w) \<and>
      fst (fst (uninstall_font self n f font_type w)) =
        fst (fst (uninstall_font self n f USER_FONT w))"
    using uw uw_user same_try flag [OF usc] flag [OF usc'] by auto
  show ?thesis
    using i1 i2 i3 i4 u1 u2 u3 u4 by blast
qed


lemma demo_names:
  "reg_name_of (lit ''.ttf'') (lit ''Demo.ttf'') = lit ''Demo (TrueType)''"
  "fst (splitext (lit ''Demo.ttf'')) = lit ''Demo''"
  by (simp_all add: reg_name_of_def path_defs)

lemma world0_demo_file:
  "files world0 (win ''C:/dl/Demo.ttf'') = Some (lit ''demo'')"
  "\<not> exists world0 (win ''C:/Users/u/AppData/Local/Microsoft/Windows/Fonts/Demo.ttf'')"
  "\<not> exists world_stale (win ''C:/Users/u/AppData/Local/Microsoft/Windows/Fonts/Gone.ttf'')"
  by (simp_all add: exists_def world_stale_def world0_def win_def lit_def replace_altsep_def
      sep_def altsep_def)

theorem scope_never_validated_witness:
  "install_font manager0 (win ''C:/dl/Demo.ttf'') (lit ''SYSTEM'') world0 =
     ((True, Installed USER_FONT), world_demo) \<and>
   uninstall_font manager0 (lit ''Gone (TrueType)'') (lit ''Gone.ttf'') (lit ''system'')
       world_stale =
     ((True, Uninstalled (lit ''system'')),
      notify_font_change (world_stale\<lparr>hkcu_fonts := []\<rparr>))"
proof -
  have t1: "lit ''SYSTEM'' \<noteq> lit ''system''" and t2: "lit ''system'' \<noteq> SYSTEM_FONT"
    by (simp_all add: lit_def SYSTEM_FONT_def)
  have errs0: "copy2_err world0 = (\<lambda>src dst. None)" "OpenKey_err world0 = (\<lambda>hk access. None)"
    "SetValueEx_err world0 = (\<lambda>hk value_name. None)"
    by (simp_all add: world0_def)
  have errs1: "OpenKey_err world_stale = (\<lambda>hk access. None)"
    "DeleteValue_err world_stale = (\<lambda>hk value_name. None)"
    "remove_err world_stale = (\<lambda>p. None)"
    "hkcu_fonts world_stale = [(lit ''Gone (TrueType)'', REG_SZ (lit ''Gone.ttf''))]"
    by (simp_all add: world_stale_def world0_def)
  have inst: "install_font manager0 (win ''C:/dl/Demo.ttf'') (lit ''SYSTEM'') world0 =
      ((True, Installed USER_FONT),
       notify_font_change
         (world0\<lparr>files := (files world0)
              (win ''C:/Users/u/AppData/Local/Microsoft/Windows/Fonts/Demo.ttf'' \<mapsto> lit ''demo''),
            hkcu_fonts := AList.update (lit ''Demo (TrueType)'') (REG_SZ (lit ''Demo.ttf''))
              (hkcu_fonts world0)\<rparr>))"
    using scope_never_validated [OF t1 t2, where w = world0 and p = "win ''C:/dl/Demo.ttf''"
        and self = manager0]
    by (simp add: world0_lower world0_files ext_examples basename_examples join_examples
        demo_names world0_demo_file errs0 lit_eq_iff)
  have w: "notify_font_change
         (world0\<lparr>files := (files world0)
              (win ''C:/Users/u/AppData/Local/Microsoft/Windows/Fonts/Demo.ttf'' \<mapsto> lit ''demo''),
            hkcu_fonts := AList.update (lit ''Demo (TrueType)'') (REG_SZ (lit ''Demo.ttf''))
              (hkcu_fonts world0)\<rparr>) = world_demo"
    by (simp add: notify_font_change_def world_demo_def world0_def)
  have gone: "(files world_stale)
      (win ''C:/Users/u/AppData/Local/Microsoft/Windows/Fonts/Gone.ttf'' := None) =
      files world_stale"
    using world0_demo_file(3) by (simp add: exists_def fun_upd_idem)
  have un: "uninstall_font manager0 (lit ''Gone (TrueType)'') (lit ''Gone.ttf'') (lit ''system'')
       world_stale =
     ((True, Uninstalled (lit ''system'')),
      notify_font_change (world_stale\<lparr>hkcu_fonts := []\<rparr>))"
    using scope_never_validated [OF t1 t2, where w = world_stale and self = manager0
        and f = "lit ''Gone.ttf''" and n = "lit ''Gone (TrueType)''"
        and p = "win ''C:/dl/Demo.ttf''"]
    by (simp add: worlds_lower join_examples errs1 gone AList.delete_eq)
  show ?thesis using inst un by (simp only: w)
qed


section \<open>The enumeration in get_installed_fonts\<close>

text \<open>
  The loop is unfolded by hand, one value at a time. The invariant \<^const>\<open>scan_inv\<close> holds
  of the empty list and set, and every step of either loop keeps it.
\<close>

declare enum_loop.simps [simp del]

lemma add_font_inv:
  assumes "scan_inv self w st" and "add_font self w root n d st = Inr st'"
  shows "scan_inv self w st'"
  using assms
  by (cases d)
    (auto simp add: add_font_def scan_inv_def listed_ok_def font_key_def Let_def
      split: if_splits)

lemma enum_loop_inv:
  "scan_inv self w st \<Longrightarrow> scan_inv self w (snd (enum_loop self w hk root i st))"
proof (induction self w hk root i st rule: enum_loop.induct)
  case (1 self w hk root i st)
  show ?case
  proof (cases "EnumValue w hk i")
    case (Inl e)
    then show ?thesis using "1.prems" by (subst enum_loop.simps) simp
  next
    case (Inr nd)
    obtain n d where nd: "nd = (n, d)" by (cases nd)
    show ?thesis
    proof (cases "add_font self w root n d st")
      case (Inl e)
      then show ?thesis using Inr nd "1.prems" by (subst enum_loop.simps) simp
    next
      case step: (Inr st')
      have "scan_inv self w st'" using "1.prems" step by (rule add_font_inv)
      then have "scan_inv self w (snd (enum_loop self w hk root (Suc i) st'))"
        using "1.IH" Inr nd step by simp
      then show ?thesis using Inr nd step by (subst enum_loop.simps) simp
    qed
  qed
qed

text \<open>When a block returns, it returns what it was given or what its loop left.\<close>

lemma read_fonts_key_Inr:
  assumes "read_fonts_key self w hk root st = Inr st'"
  shows "(OpenKey_err w hk KEY_READ \<noteq> None \<and> st' = st) \<or>
         (OpenKey_err w hk KEY_READ = None \<and> st' = snd (enum_loop self w hk root 0 st))"
  using assms
  by (auto simp add: read_fonts_key_def OpenKey_def print_def
      split: sum.splits prod.splits option.splits)


lemma read_fonts_key_readable:
  assumes "OpenKey_err w hk KEY_READ = None"
    and "fst (enum_loop self w hk root 0 st) = None"
  shows "read_fonts_key self w hk root st = Inr (snd (enum_loop self w hk root 0 st))"
  using assms
  by (auto simp add: read_fonts_key_def OpenKey_def split: sum.splits prod.splits option.splits)

lemma read_fonts_key_inv:
  assumes "scan_inv self w st" and "read_fonts_key self w hk root st = Inr st'"
  shows "scan_inv self w st'"
  using read_fonts_key_Inr [OF assms(2)] assms(1) enum_loop_inv [of self w st hk root 0]
  by auto

lemma scan_inv_empty: "scan_inv self w ([], {})"
  by (simp add: scan_inv_def)

text \<open>\<open>sorted\<close> is an insertion sort here; it keeps the keys apart.\<close>

lemma distinct_map_insort_key:
  "distinct (map k (insort_key f x xs)) = (k x \<notin> k ` set xs \<and> distinct (map k xs))"
  by (induction xs) (auto simp add: set_insort_key)

lemma distinct_map_sort_key:
  "distinct (map k (sort_key f xs)) = distinct (map k xs)"
  by (induction xs) (simp_all add: distinct_map_insort_key)

lemma catalog_scan:
  assumes "get_installed_fonts self w = Inr fs"
  obtains st1 st2 where
    "read_fonts_key self w HKEY_LOCAL_MACHINE (system_fonts_dir self) ([], {}) = Inr st1"
    and "read_fonts_key self w HKEY_CURRENT_USER (user_fonts_dir self) st1 = Inr st2"
    and "scan_inv self w st2" and "fs = sort_key f_name (fst st2)"
proof -
  obtain st1 where st1:
    "read_fonts_key self w HKEY_LOCAL_MACHINE (system_fonts_dir self) ([], {}) = Inr st1"
    using assms by (auto simp add: get_installed_fonts_def split: sum.splits)
  obtain st2 where st2:
    "read_fonts_key self w HKEY_CURRENT_USER (user_fonts_dir self) st1 = Inr st2"
    and fs: "fs = sort_key f_name (fst st2)"
    using assms st1 by (auto simp add: get_installed_fonts_def split: sum.splits)
  have "scan_inv self w st2"
    using read_fonts_key_inv [OF read_fonts_key_inv [OF scan_inv_empty st1] st2] .
  then show ?thesis using that st1 st2 fs by blast
qed


text \<open>
  What the lists returned have in common, whichever hive a font was read from: the type
  is the system label exactly when the lowercased path starts, as a string, with the
  lowercased system font directory.
\<close>

lemma catalog_type_by_prefix:
  assumes "get_installed_fonts self w = Inr fs" and "r \<in> set fs"
  shows "f_type r = (if prefix (str_lower w (system_fonts_dir self)) (str_lower w (f_path r))
                     then SYSTEM_FONT else USER_FONT)"
proof -
  obtain st2 where "scan_inv self w st2" and "fs = sort_key f_name (fst st2)"
    using assms(1) by (rule catalog_scan)
  then show ?thesis using assms(2) by (auto simp add: scan_inv_def list_all_iff listed_ok_def)
qed

lemma distinct_map_filter_one:
  assumes "distinct (map k xs)" and "x \<in> set xs"
  shows "length (filter (\<lambda>r. k r = k x) xs) = 1"
  using assms
proof (induction xs)
  case Nil
  then show ?case by simp
next
  case (Cons y ys)
  show ?case
  proof (cases "k y = k x")
    case True
    then have "\<forall>r\<in>set ys. k r \<noteq> k x" using Cons.prems(1) by (auto simp add: image_iff)
    then have "filter (\<lambda>r. k r = k x) ys = []" by (simp add: filter_empty_conv)
    then show ?thesis using True by simp
  next
    case False
    then have "x \<in> set ys" using Cons.prems(2) by auto
    then show ?thesis using Cons.IH Cons.prems(1) False by simp
  qed
qed

text \<open>Nothing is ever taken out of \<open>fonts\<close> or \<open>added_fonts\<close>.\<close>

lemma add_font_mono:
  assumes "add_font self w root n d st = Inr st'"
  shows "snd st \<subseteq> snd st' \<and> set (fst st) \<subseteq> set (fst st')"
  using assms
  by (cases d) (auto simp add: add_font_def Let_def split: if_splits)

lemma enum_loop_mono:
  "snd st \<subseteq> snd (snd (enum_loop self w hk root i st)) \<and>
   set (fst st) \<subseteq> set (fst (snd (enum_loop self w hk root i st)))"
proof (induction self w hk root i st rule: enum_loop.induct)
  case (1 self w hk root i st)
  show ?case
  proof (cases "EnumValue w hk i")
    case (Inl e)
    then show ?thesis by (subst (1 2) enum_loop.simps) simp
  next
    case (Inr nd)
    obtain n d where nd: "nd = (n, d)" by (cases nd)
    show ?thesis
    proof (cases "add_font self w root n d st")
      case (Inl e)
      then show ?thesis using Inr nd by (subst (1 2) enum_loop.simps) simp
    next
      case step: (Inr st')
      have "snd st \<subseteq> snd st' \<and> set (fst st) \<subseteq> set (fst st')"
        using step by (rule add_font_mono)
      moreover have "snd st' \<subseteq> snd (snd (enum_loop self w hk root (Suc i) st')) \<and>
          set (fst st') \<subseteq> set (fst (snd (enum_loop self w hk root (Suc i) st')))"
        using "1.IH" Inr nd step by simp
      moreover have "enum_loop self w hk root i st = enum_loop self w hk root (Suc i) st'"
        using Inr nd step by (subst enum_loop.simps) simp
      ultimately show ?thesis by auto
    qed
  qed
qed

lemma read_fonts_key_mono:
  assumes "read_fonts_key self w hk root st = Inr st'"
  shows "snd st \<subseteq> snd st' \<and> set (fst st) \<subseteq> set (fst st')"
  using read_fonts_key_Inr [OF assms] enum_loop_mono [of st self w hk root 0]
  by auto

text \<open>A value that the loop reaches, and whose file exists, has its key added.\<close>

lemma add_font_data_ok:
  assumes "data_ok w d"
  shows "\<exists>st'. add_font self w root n d st = Inr st'"
  using assms by (cases d) (simp_all add: add_font_def Let_def)

lemma add_font_key:
  assumes "add_font self w root n (REG_SZ v) st = Inr st'"
    and "exists w (resolve (str_lower w) root v)"
  shows "(n, str_lower w (resolve (str_lower w) root v)) \<in> snd st'"
  using assms by (auto simp add: add_font_def Let_def split: if_splits)

lemma enum_loop_reach:
  assumes "i \<le> k" and "k < length (fonts_key w hk)"
    and "\<And>j. i \<le> j \<Longrightarrow> j \<le> k \<Longrightarrow>
           \<not> EnumValue_err w hk j \<and> data_ok w (snd (fonts_key w hk ! j))"
    and "fonts_key w hk ! k = (n, REG_SZ v)"
    and "exists w (resolve (str_lower w) root v)"
  shows "(n, str_lower w (resolve (str_lower w) root v))
           \<in> snd (snd (enum_loop self w hk root i st))"
  using assms
proof (induction "k - i" arbitrary: i st)
  case 0
  then have ik: "i = k" by simp
  have ev: "EnumValue w hk k = Inr (n, REG_SZ v)"
    using "0.prems"(2,3,4) ik by (simp add: EnumValue_def)
  obtain st' where step: "add_font self w root n (REG_SZ v) st = Inr st'"
    using add_font_data_ok [of w "REG_SZ v" self root n st] by auto
  have "(n, str_lower w (resolve (str_lower w) root v)) \<in> snd st'"
    using step "0.prems"(5) by (rule add_font_key)
  moreover have "enum_loop self w hk root i st = enum_loop self w hk root (Suc k) st'"
    using ev step ik by (subst enum_loop.simps) simp
  ultimately show ?case
    using enum_loop_mono [of st' self w hk root "Suc k"] by auto
next
  case (Suc m)
  then have lt: "i < k" by simp
  obtain n' d' where nd: "fonts_key w hk ! i = (n', d')" by (cases "fonts_key w hk ! i")
  have ok: "\<not> EnumValue_err w hk i \<and> data_ok w d'"
    using Suc.prems(3) [of i] lt nd by simp
  have ev: "EnumValue w hk i = Inr (n', d')"
    using Suc.prems(2) lt ok nd by (simp add: EnumValue_def)
  obtain st' where step: "add_font self w root n' d' st = Inr st'"
    using ok add_font_data_ok [of w d' self root n' st] by auto
  have eq: "enum_loop self w hk root i st = enum_loop self w hk root (Suc i) st'"
    using ev step by (subst enum_loop.simps) simp
  have "(n, str_lower w (resolve (str_lower w) root v))
          \<in> snd (snd (enum_loop self w hk root (Suc i) st'))"
  proof (rule Suc.hyps(1))
    show "m = k - Suc i" using Suc.hyps(2) by simp
    show "Suc i \<le> k" using lt by simp
    show "k < length (fonts_key w hk)" by (rule Suc.prems(2))
    show "\<not> EnumValue_err w hk j \<and> data_ok w (snd (fonts_key w hk ! j))"
      if "Suc i \<le> j" "j \<le> k" for j using Suc.prems(3) [of j] that by simp
    show "fonts_key w hk ! k = (n, REG_SZ v)" by (rule Suc.prems(4))
    show "exists w (resolve (str_lower w) root v)" by (rule Suc.prems(5))
  qed
  then show ?case by (simp add: eq)
qed

lemma reached_key:
  assumes "reached w hk k" and "fonts_key w hk ! k = (n, REG_SZ v)"
    and "exists w (resolve (str_lower w) root v)"
    and "read_fonts_key self w hk root st = Inr st'"
  shows "(n, str_lower w (resolve (str_lower w) root v)) \<in> snd st'"
proof -
  have len: "k < length (fonts_key w hk)" and op: "OpenKey_err w hk KEY_READ = None"
    and all: "\<And>j. j \<le> k \<Longrightarrow> \<not> EnumValue_err w hk j \<and> data_ok w (snd (fonts_key w hk ! j))"
    using assms(1) by (auto simp add: reached_def list_all_iff)
  have "(n, str_lower w (resolve (str_lower w) root v))
          \<in> snd (snd (enum_loop self w hk root 0 st))"
    using len all assms(2,3) by (intro enum_loop_reach [where k = k]) simp_all
  then show ?thesis
    using read_fonts_key_Inr [OF assms(4)] op by auto
qed

lemma catalog_key:
  assumes "get_installed_fonts self w = Inr fs"
    and "reached w hk k" and "fonts_key w hk ! k = (n, REG_SZ v)"
    and "exists w (resolve (str_lower w) (root_of self hk) v)"
  shows "(n, str_lower w (resolve (str_lower w) (root_of self hk) v)) \<in> font_key w ` set fs"
proof -
  obtain st1 st2 where
    st1: "read_fonts_key self w HKEY_LOCAL_MACHINE (system_fonts_dir self) ([], {}) = Inr st1"
    and st2: "read_fonts_key self w HKEY_CURRENT_USER (user_fonts_dir self) st1 = Inr st2"
    and inv: "scan_inv self w st2" and fs: "fs = sort_key f_name (fst st2)"
    using assms(1) by (rule catalog_scan)
  have "(n, str_lower w (resolve (str_lower w) (root_of self hk) v)) \<in> snd st2"
  proof (cases hk)
    case HKEY_LOCAL_MACHINE
    then have "(n, str_lower w (resolve (str_lower w) (root_of self hk) v)) \<in> snd st1"
      using reached_key [OF _ _ _ st1, of k n v] assms(2,3,4) by simp
    then show ?thesis
      using read_fonts_key_mono [OF st2] by blast
  next
    case HKEY_CURRENT_USER
    then show ?thesis
      using reached_key [OF _ _ _ st2, of k n v] assms(2,3,4) by simp
  qed
  then show ?thesis using inv fs by (simp add: scan_inv_def)
qed



text \<open>Running the listing on the example machines.\<close>

lemmas scan_defs = get_installed_fonts_def read_fonts_key_def print_def enum_loop.simps
  add_font_def resolve_def OpenKey_def EnumValue_def exists_def Let_def manager0_def world0_def

lemma catalog_both:
  "get_installed_fonts manager0 world_both =
     Inr [\<lparr>f_name = lit ''Arial (TrueType)'', f_file = lit ''arial.ttf'',
           f_path = win ''C:/Windows/Fonts/arial.ttf'', f_type = SYSTEM_FONT\<rparr>]"
  by (simp add: scan_defs path_defs world_both_def)

lemma reached_both:
  "reached world_both HKEY_LOCAL_MACHINE 0" "reached world_both HKEY_CURRENT_USER 0"
  by (simp_all add: reached_def world_both_def world0_def)

lemma resolve_both:
  "resolve ascii_lower (system_fonts_dir manager0) (lit ''arial.ttf'') =
     win ''C:/Windows/Fonts/arial.ttf''"
  "resolve ascii_lower (user_fonts_dir manager0) (win ''C:/Windows/Fonts/arial.ttf'') =
     win ''C:/Windows/Fonts/arial.ttf''"
  by (simp_all add: resolve_def path_defs manager0_def)


section \<open>The catalog\<close>

text \<open>
  Claim C3. In every state, no two dictionaries of the list that \<open>get_installed_fonts\<close>
  returns have the same name and the same lowercased path, whatever \<open>str.lower()\<close> does
  to a path. So a font recorded in both hives under one name and at one resolved path
  (both values reached by the enumeration, the file existing) is listed exactly once.
\<close>

theorem catalog_no_duplicates:
  assumes "get_installed_fonts self w = Inr fs"
  shows "distinct (map (font_key w) fs) \<and>
    (reached w HKEY_LOCAL_MACHINE i \<and> hklm_fonts w ! i = (n, REG_SZ va) \<and>
     reached w HKEY_CURRENT_USER k \<and> hkcu_fonts w ! k = (n, REG_SZ vb) \<and>
     resolve (str_lower w) (system_fonts_dir self) va = p \<and>
     resolve (str_lower w) (user_fonts_dir self) vb = p \<and>
     exists w p
     \<longrightarrow> length (filter (\<lambda>r. font_key w r = (n, str_lower w p)) fs) = 1)"
proof -
  obtain st2 where inv: "scan_inv self w st2" and fs: "fs = sort_key f_name (fst st2)"
    using assms by (rule catalog_scan)
  have dist: "distinct (map (font_key w) fs)"
    using inv by (simp add: fs scan_inv_def distinct_map_sort_key)
  have one: "length (filter (\<lambda>r. font_key w r = (n, str_lower w p)) fs) = 1"
    if "reached w HKEY_LOCAL_MACHINE i" and "hklm_fonts w ! i = (n, REG_SZ va)"
      and "resolve (str_lower w) (system_fonts_dir self) va = p" and "exists w p"
  proof -
    have "(n, str_lower w p) \<in> font_key w ` set fs"
      using catalog_key [OF assms, of HKEY_LOCAL_MACHINE i n va] that by simp
    then obtain r where "r \<in> set fs" and "font_key w r = (n, str_lower w p)" by auto
    then show ?thesis using distinct_map_filter_one [OF dist, of r] by simp
  qed
  show ?thesis using dist one by blast
qed

theorem catalog_no_duplicates_witness:
  "get_installed_fonts manager0 world_both =
     Inr [\<lparr>f_name = lit ''Arial (TrueType)'', f_file = lit ''arial.ttf'',
           f_path = win ''C:/Windows/Fonts/arial.ttf'', f_type = SYSTEM_FONT\<rparr>] \<and>
   length (filter (\<lambda>r. font_key world_both r =
                        (lit ''Arial (TrueType)'', ascii_lower (win ''C:/Windows/Fonts/arial.ttf'')))
     [\<lparr>f_name = lit ''Arial (TrueType)'', f_file = lit ''arial.ttf'',
       f_path = win ''C:/Windows/Fonts/arial.ttf'', f_type = SYSTEM_FONT\<rparr>]) = 1"
proof -
  have both: "hklm_fonts world_both ! 0 = (lit ''Arial (TrueType)'', REG_SZ (lit ''arial.ttf''))"
    "hkcu_fonts world_both ! 0 =
       (lit ''Arial (TrueType)'', REG_SZ (win ''C:/Windows/Fonts/arial.ttf''))"
    by (simp_all add: world_both_def world0_def)
  have there: "exists world_both (win ''C:/Windows/Fonts/arial.ttf'')"
    by (simp add: exists_def world_both_def world0_def)
  show ?thesis
    using catalog_no_duplicates [OF catalog_both, where i = 0 and k = 0
        and n = "lit ''Arial (TrueType)''" and va = "lit ''arial.ttf''"
        and vb = "win ''C:/Windows/Fonts/arial.ttf''" and p = "win ''C:/Windows/Fonts/arial.ttf''"]
      reached_both both there
    by (simp only: worlds_lower resolve_both catalog_both)
qed

text \<open>
  Claim C6 fails on the code. The user hive names a font by the absolute path
  \<open>C:\Windows\FontsBackup\old.ttf\<close>. That file does not lie under the system font
  directory \<open>C:\Windows\Fonts\<close>: its path resolves elsewhere. Yet the path starts with
  the characters of the directory's name, and the font is listed as a system font.
\<close>

theorem get_installed_fonts_sibling_directory:
  "get_installed_fonts manager0 world_sibling =
     Inr [\<lparr>f_name = lit ''Arial (TrueType)'', f_file = lit ''arial.ttf'',
           f_path = win ''C:/Windows/Fonts/arial.ttf'', f_type = SYSTEM_FONT\<rparr>,
          \<lparr>f_name = lit ''Old (TrueType)'', f_file = win ''C:/Windows/FontsBackup/old.ttf'',
           f_path = win ''C:/Windows/FontsBackup/old.ttf'', f_type = SYSTEM_FONT\<rparr>] \<and>
   system_fonts_dir manager0 = win ''C:/Windows/Fonts'' \<and>
   \<not> prefix (ascii_lower (win ''C:/Windows/Fonts/''))
       (ascii_lower (win ''C:/Windows/FontsBackup/old.ttf''))"
  by (simp add: scan_defs path_defs world_sibling_def)

text \<open>
  Claim C8 fails on the code. The machine hive cannot be opened, so the handler of the
  first block runs; its \<open>print\<close> raises on a standard output that cannot encode the
  message, and the exception leaves \<open>get_installed_fonts\<close> before the user hive is read.
  With a \<open>print\<close> that succeeds the same machine lists the font of the user hive.
\<close>

theorem get_installed_fonts_print_raises:
  "OpenKey world_mute HKEY_LOCAL_MACHINE KEY_READ = Inl PermissionError \<and>
   print world_mute = Inl UnicodeEncodeError \<and>
   get_installed_fonts manager0 world_mute = Inl UnicodeEncodeError \<and>
   get_installed_fonts manager0 (world_mute\<lparr>print_err := None\<rparr>) =
     Inr [\<lparr>f_name = lit ''Busy (TrueType)'', f_file = lit ''Busy.ttf'',
           f_path = win ''C:/Users/u/AppData/Local/Microsoft/Windows/Fonts/Busy.ttf'',
           f_type = USER_FONT\<rparr>]"
  by (simp add: scan_defs path_defs world_mute_def world_busy_def)


section \<open>What a successful installation writes\<close>

lemma install_font_success:
  assumes "install_font self p t w = ((True, m), w1)"
    and "install_scope self t = (dir, hk, type_name)"
  obtains c where "files w p = Some c"
    and "str_lower w (snd (splitext p)) \<in> {lit ''.ttf'', lit ''.otf'', lit ''.ttc''}"
    and "\<not> exists w (join (str_lower w) dir (basename p))"
    and "OpenKey_err w hk KEY_SET_VALUE = None"
    and "w1 = notify_font_change
           (set_fonts_key hk
             (AList.update (reg_name_of (str_lower w (snd (splitext p))) (basename p))
                (REG_SZ (basename p)) (fonts_key w hk))
             (w\<lparr>files := (files w)(join (str_lower w) dir (basename p) \<mapsto> c)\<rparr>))"
    and "m = Installed type_name"
proof -
  have ex: "exists w p"
    and ext: "str_lower w (snd (splitext p)) \<in> {lit ''.ttf'', lit ''.otf'', lit ''.ttc''}"
    and fresh: "\<not> exists w (join (str_lower w) dir (basename p))"
    using assms by (auto simp add: install_font_def Let_def split: if_splits)
  have tried: "install_try p (basename p) (str_lower w (snd (splitext p)))
      (join (str_lower w) dir (basename p)) hk type_name w = (Inr (True, m), w1)"
    using assms ex ext fresh
    by (auto simp add: install_font_def Let_def split: if_splits sum.splits exn.splits prod.splits)
  obtain c where c: "files w p = Some c" using ex by (auto simp add: exists_def)
  have cp: "copy2_err w p (join (str_lower w) dir (basename p)) = None"
    using tried by (auto simp add: install_try_def copy2_def split: option.splits)
  let ?w' = "w\<lparr>files := (files w)(join (str_lower w) dir (basename p) \<mapsto> c)\<rparr>"
  have copy: "copy2 w p (join (str_lower w) dir (basename p)) = (Inr (), ?w')"
    using c cp by (simp add: copy2_def)
  have same: "fonts_key ?w' hk = fonts_key w hk" "OpenKey_err ?w' = OpenKey_err w"
    "SetValueEx_err ?w' = SetValueEx_err w"
    by (cases hk; simp)+
  have op: "OpenKey_err w hk KEY_SET_VALUE = None"
    using tried copy same
    by (auto simp add: install_try_def OpenKey_def Let_def split: option.splits)
  have "w1 = notify_font_change
           (set_fonts_key hk
             (AList.update (reg_name_of (str_lower w (snd (splitext p))) (basename p))
                (REG_SZ (basename p)) (fonts_key w hk)) ?w') \<and> m = Installed type_name"
    using tried copy same op
    by (auto simp add: install_try_def OpenKey_def SetValueEx_def Let_def split: option.splits)
  then show ?thesis using that c ext fresh op by blast
qed

lemmas install_defs = install_font_def install_try_def install_scope_def reg_name_of_def
  copy2_def SetValueEx_def notify_font_change_def

lemma install_demo:
  "install_font manager0 (win ''C:/dl/Demo.ttf'') (lit ''user'') world0 =
     ((True, Installed USER_FONT), world_demo)"
  by (simp add: install_defs OpenKey_def exists_def Let_def path_defs manager0_def world0_def
      world_demo_def)

text \<open>
  Claim C1, as amended. After a successful \<open>install_font\<close> the hive of the chosen scope
  holds a value whose data is the file name and whose name is the file name without its
  extension, followed by \<open>(TrueType)\<close> for \<open>.ttf\<close>, by \<open>(OpenType)\<close> for \<open>.otf\<close>, and by
  nothing for \<open>.ttc\<close>: two annotations, and the bare name for the third extension.
\<close>

theorem install_font_display_name:
  assumes "install_font self p t w = ((True, m), w1)"
  shows "(let ext = str_lower w (snd (splitext p));
              stem = fst (splitext (basename p));
              hk = fst (snd (install_scope self t));
              reg_name = (if ext = lit ''.ttf'' then stem @ lit '' (TrueType)''
                          else if ext = lit ''.otf'' then stem @ lit '' (OpenType)''
                          else stem)
          in ext \<in> {lit ''.ttf'', lit ''.otf'', lit ''.ttc''} \<and>
             fonts_key w1 hk = AList.update reg_name (REG_SZ (basename p)) (fonts_key w hk) \<and>
             map_of (fonts_key w1 hk) reg_name = Some (REG_SZ (basename p)))"
proof -
  obtain dir hk type_name where sc: "install_scope self t = (dir, hk, type_name)"
    by (cases "install_scope self t")
  obtain c where ext: "str_lower w (snd (splitext p)) \<in> {lit ''.ttf'', lit ''.otf'', lit ''.ttc''}"
    and w1: "w1 = notify_font_change
           (set_fonts_key hk
             (AList.update (reg_name_of (str_lower w (snd (splitext p))) (basename p))
                (REG_SZ (basename p)) (fonts_key w hk))
             (w\<lparr>files := (files w)(join (str_lower w) dir (basename p) \<mapsto> c)\<rparr>))"
    using assms sc by (rule install_font_success)
  have key: "fonts_key w1 hk =
      AList.update (reg_name_of (str_lower w (snd (splitext p))) (basename p))
        (REG_SZ (basename p)) (fonts_key w hk)"
    by (cases hk) (simp_all add: w1 notify_font_change_def)
  show ?thesis
    using ext key sc by (simp add: Let_def reg_name_of_def update_conv')
qed

theorem install_font_display_name_witness:
  "hkcu_fonts world_demo = [(lit ''Demo (TrueType)'', REG_SZ (lit ''Demo.ttf''))] \<and>
   map_of (hkcu_fonts world_demo) (lit ''Demo (TrueType)'') = Some (REG_SZ (lit ''Demo.ttf''))"
proof -
  have "fst (snd (install_scope manager0 (lit ''user''))) = HKEY_CURRENT_USER"
    by (simp add: install_scope_def lit_eq_iff)
  then show ?thesis
    using install_font_display_name [OF install_demo] demo_names
    by (simp add: Let_def world0_lower ext_examples basename_examples world0_def lit_append)
qed

text \<open>
  Claim C1 as stated fails for \<open>.ttc\<close>: installing \<open>Pack.ttc\<close> writes the value named
  \<open>Pack\<close>, the file name without its extension and no annotation after it.
\<close>

theorem install_font_ttc_counterexample:
  "fst (install_font manager0 (win ''C:/dl/Pack.ttc'') (lit ''user'') world0) =
     (True, Installed USER_FONT) \<and>
   hkcu_fonts (snd (install_font manager0 (win ''C:/dl/Pack.ttc'') (lit ''user'') world0)) =
     [(lit ''Pack'', REG_SZ (lit ''Pack.ttc''))] \<and>
   fst (splitext (basename (win ''C:/dl/Pack.ttc''))) = lit ''Pack''"
  by (simp add: install_defs OpenKey_def exists_def Let_def path_defs manager0_def world0_def)


section \<open>Install, list, uninstall\<close>























end
